theory Spec2Isabelle
  imports Complex_Main "HOL-Library.Multiset"
begin

section \<open>A DC power flow simulation: embedding of power_grid_sim.py\<close>

text \<open>
  The Python module has three functions with algorithmic content: \<open>build_b_matrix\<close>,
  \<open>solve_linear_system\<close> and \<open>dc_power_flow\<close>. They are embedded below statement by
  statement. Conventions of the embedding:
  \<^item> a Python \<open>float\<close> is an exact rational number (\<open>rat\<close>): rounding, infinities and
    NaN of IEEE doubles are not part of the model, so every result below is a result
    about exact arithmetic;
  \<^item> a Python \<open>int\<close> is an \<open>int\<close>; indexing a list with it follows Python, where a
    negative index counts from the end and an index out of range raises IndexError;
  \<^item> a raised exception is a value \<open>Inl e\<close> of the result, and stops the computation;
  \<^item> a \<open>for\<close> loop is a fold over the list of values it iterates over.
\<close>

subsection \<open>Exceptions and list primitives\<close>

datatype error = ValueError string | IndexError | ZeroDivisionError

type_synonym pyfloat = rat

definition bindE :: "error + 'a \<Rightarrow> ('a \<Rightarrow> error + 'b) \<Rightarrow> error + 'b" where
  "bindE m f = (case m of Inl e \<Rightarrow> Inl e | Inr v \<Rightarrow> f v)"

text \<open>A \<open>for\<close> loop whose body may raise: the state is threaded from left to right.\<close>

fun foldE :: "('a \<Rightarrow> 's \<Rightarrow> error + 's) \<Rightarrow> 'a list \<Rightarrow> 's \<Rightarrow> error + 's" where
  "foldE f [] s = Inr s"
| "foldE f (x # xs) s = bindE (f x s) (foldE f xs)"

text \<open>A list comprehension whose element expression may raise.\<close>

fun mapE :: "('a \<Rightarrow> error + 'b) \<Rightarrow> 'a list \<Rightarrow> error + 'b list" where
  "mapE f [] = Inr []"
| "mapE f (x # xs) = bindE (f x) (\<lambda>y. bindE (mapE f xs) (\<lambda>ys. Inr (y # ys)))"

text \<open>The position that Python index \<open>i\<close> denotes in a list of length \<open>len\<close>.\<close>

definition norm_index :: "nat \<Rightarrow> int \<Rightarrow> error + nat" where
  "norm_index len i =
     (if 0 \<le> i \<and> i < int len then Inr (nat i)
      else if i < 0 \<and> - int len \<le> i then Inr (nat (int len + i))
      else Inl IndexError)"

definition getitem :: "'a list \<Rightarrow> int \<Rightarrow> error + 'a" where
  "getitem xs i = bindE (norm_index (length xs) i) (\<lambda>k. Inr (xs ! k))"

definition setitem :: "'a list \<Rightarrow> int \<Rightarrow> 'a \<Rightarrow> error + 'a list" where
  "setitem xs i v = bindE (norm_index (length xs) i) (\<lambda>k. Inr (xs[k := v]))"

text \<open>\<open>M[r][j]\<close> read, and \<open>M[r][j] = v\<close>: the row object is fetched, then indexed.\<close>

definition entry_get :: "'a list list \<Rightarrow> int \<Rightarrow> int \<Rightarrow> error + 'a" where
  "entry_get M r j = bindE (getitem M r) (\<lambda>row. getitem row j)"

definition entry_set :: "'a list list \<Rightarrow> int \<Rightarrow> int \<Rightarrow> 'a \<Rightarrow> error + 'a list list" where
  "entry_set M r j v =
     bindE (getitem M r) (\<lambda>row. bindE (setitem row j v) (\<lambda>row'. setitem M r row'))"

text \<open>Float division: a zero divisor raises ZeroDivisionError.\<close>

definition py_div :: "pyfloat \<Rightarrow> pyfloat \<Rightarrow> error + pyfloat" where
  "py_div a b = (if b = 0 then Inl ZeroDivisionError else Inr (a / b))"

text \<open>
  \<open>max(xs, key=k)\<close>: the keys are computed from left to right, and a later element
  replaces the current best only when its key is strictly greater.
\<close>

fun max_loop :: "('a \<Rightarrow> error + pyfloat) \<Rightarrow> 'a list \<Rightarrow> 'a \<Rightarrow> pyfloat \<Rightarrow> error + 'a" where
  "max_loop key [] best bk = Inr best"
| "max_loop key (x # xs) best bk =
     bindE (key x) (\<lambda>k. if bk < k then max_loop key xs x k else max_loop key xs best bk)"

definition py_max :: "('a \<Rightarrow> error + pyfloat) \<Rightarrow> 'a list \<Rightarrow> error + 'a" where
  "py_max key xs =
     (case xs of
        [] \<Rightarrow> Inl (ValueError ''max() arg is an empty sequence'')
      | x # rest \<Rightarrow> bindE (key x) (\<lambda>k. max_loop key rest x k))"

subsection \<open>build_b_matrix\<close>

type_synonym line = "int \<times> int \<times> pyfloat"

text \<open>\<open>M[r][j] += d\<close> and \<open>M[r][j] -= d\<close>.\<close>

definition entry_add :: "pyfloat list list \<Rightarrow> int \<Rightarrow> int \<Rightarrow> pyfloat \<Rightarrow> error + pyfloat list list" where
  "entry_add M r j d = bindE (entry_get M r j) (\<lambda>v. entry_set M r j (v + d))"

definition entry_sub :: "pyfloat list list \<Rightarrow> int \<Rightarrow> int \<Rightarrow> pyfloat \<Rightarrow> error + pyfloat list list" where
  "entry_sub M r j d = bindE (entry_get M r j) (\<lambda>v. entry_set M r j (v - d))"

text \<open>The body of the loop over the lines.\<close>

definition add_line :: "line \<Rightarrow> pyfloat list list \<Rightarrow> error + pyfloat list list" where
  "add_line l B =
     (case l of (i, j, x) \<Rightarrow>
        bindE (py_div 1 x) (\<lambda>b.
        bindE (entry_add B i i b) (\<lambda>B1.
        bindE (entry_add B1 j j b) (\<lambda>B2.
        bindE (entry_sub B2 i j b) (\<lambda>B3.
        entry_sub B3 j i b)))))"

definition build_b_matrix :: "int \<Rightarrow> line list \<Rightarrow> error + pyfloat list list" where
  "build_b_matrix num_nodes lines =
     foldE add_line lines (replicate (nat num_nodes) (replicate (nat num_nodes) 0))"

subsection \<open>solve_linear_system\<close>

definition singular_matrix :: error where
  "singular_matrix = ValueError ''Singular matrix''"

definition pivot_threshold :: pyfloat where
  "pivot_threshold = 1 / 10 ^ 12"

text \<open>The key of the pivot selection: \<open>abs(M[r][i])\<close>.\<close>

definition pivot_key :: "pyfloat list list \<Rightarrow> nat \<Rightarrow> nat \<Rightarrow> error + pyfloat" where
  "pivot_key M i r = bindE (entry_get M (int r) (int i)) (\<lambda>v. Inr \<bar>v\<bar>)"

text \<open>\<open>M[i], M[p] = M[p], M[i]\<close>: both reads, then both writes.\<close>

definition swap_rows :: "'a list \<Rightarrow> nat \<Rightarrow> nat \<Rightarrow> error + 'a list" where
  "swap_rows M i p =
     bindE (getitem M (int p)) (\<lambda>a.
     bindE (getitem M (int i)) (\<lambda>b.
     bindE (setitem M (int i) a) (\<lambda>M1.
     setitem M1 (int p) b)))"

text \<open>\<open>for j in range(i, n + 1): M[i][j] /= pivot\<close>\<close>

definition normalize_row :: "nat \<Rightarrow> nat \<Rightarrow> pyfloat \<Rightarrow> pyfloat list list \<Rightarrow> error + pyfloat list list" where
  "normalize_row n i pivot M =
     foldE (\<lambda>j M. bindE (entry_get M (int i) (int j)) (\<lambda>v.
                   bindE (py_div v pivot) (\<lambda>q. entry_set M (int i) (int j) q)))
       [i..<n + 1] M"

text \<open>\<open>for j in range(i, n + 1): M[r][j] -= factor * M[i][j]\<close>\<close>

definition eliminate_row :: "nat \<Rightarrow> nat \<Rightarrow> nat \<Rightarrow> pyfloat \<Rightarrow> pyfloat list list \<Rightarrow> error + pyfloat list list" where
  "eliminate_row n i r factor M =
     foldE (\<lambda>j M. bindE (entry_get M (int r) (int j)) (\<lambda>v.
                   bindE (entry_get M (int i) (int j)) (\<lambda>w.
                   entry_set M (int r) (int j) (v - factor * w))))
       [i..<n + 1] M"

text \<open>The loop over all rows \<open>r\<close>, skipping \<open>r == i\<close>.\<close>

definition eliminate :: "nat \<Rightarrow> nat \<Rightarrow> pyfloat list list \<Rightarrow> error + pyfloat list list" where
  "eliminate n i M =
     foldE (\<lambda>r M. if r = i then Inr M
                   else bindE (entry_get M (int r) (int i)) (\<lambda>factor. eliminate_row n i r factor M))
       [0..<n] M"

text \<open>The body of the loop over the pivot columns.\<close>

definition pivot_step :: "nat \<Rightarrow> nat \<Rightarrow> pyfloat list list \<Rightarrow> error + pyfloat list list" where
  "pivot_step n i M =
     bindE (py_max (pivot_key M i) [i..<n]) (\<lambda>pivot_row.
     bindE (swap_rows M i pivot_row) (\<lambda>M1.
     bindE (entry_get M1 (int i) (int i)) (\<lambda>pivot.
     if \<bar>pivot\<bar> < pivot_threshold then Inl singular_matrix
     else bindE (normalize_row n i pivot M1) (eliminate n i))))"

text \<open>\<open>[row[:] + [b_val] for row, b_val in zip(A, b)]\<close>\<close>

definition augment :: "pyfloat list list \<Rightarrow> pyfloat list \<Rightarrow> pyfloat list list" where
  "augment A b = map (\<lambda>(row, b_val). row @ [b_val]) (zip A b)"

definition solve_linear_system :: "pyfloat list list \<Rightarrow> pyfloat list \<Rightarrow> error + pyfloat list" where
  "solve_linear_system A b =
     (let n = length A in
      bindE (foldE (pivot_step n) [0..<n] (augment A b)) (\<lambda>M.
      mapE (\<lambda>i. entry_get M (int i) (- 1)) [0..<n]))"

subsection \<open>dc_power_flow\<close>

definition dimension_mismatch :: error where
  "dimension_mismatch = ValueError ''Mismatch between number of buses and injections''"

text \<open>The body of the loop that appends one flow per line.\<close>

definition line_flow :: "pyfloat list \<Rightarrow> line \<Rightarrow> line list \<Rightarrow> error + line list" where
  "line_flow angles l flows =
     (case l of (i, j, x) \<Rightarrow>
        bindE (getitem angles i) (\<lambda>ai.
        bindE (getitem angles j) (\<lambda>aj.
        bindE (py_div (ai - aj) x) (\<lambda>flow.
        Inr (flows @ [(i, j, flow)])))))"

definition dc_power_flow ::
  "int \<Rightarrow> line list \<Rightarrow> pyfloat list \<Rightarrow> error + (pyfloat list \<times> line list)" where
  "dc_power_flow num_nodes lines injections =
     (if int (length injections) \<noteq> num_nodes then Inl dimension_mismatch
      else
        bindE (build_b_matrix num_nodes lines) (\<lambda>B.
        let B_reduced = map (drop 1) (drop 1 B);
            P_reduced = drop 1 injections
        in bindE (solve_linear_system B_reduced P_reduced) (\<lambda>angles_unknown.
           let angles = 0 # angles_unknown
           in bindE (foldE (line_flow angles) lines []) (\<lambda>flows.
              Inr (angles, flows)))))"

subsection \<open>The sample network of main\<close>

definition main_lines :: "line list" where
  "main_lines = [(0, 1, 1 / 10), (0, 2, 2 / 10), (1, 2, 15 / 100)]"

definition main_injections :: "pyfloat list" where
  "main_injections = [100, - 40, - 60]"

section \<open>Notions used in the statements\<close>
















section \<open>Properties\<close>

subsection \<open>Which exceptions can be raised\<close>

lemma bindE_Inl: "bindE m f = Inl e \<longleftrightarrow> m = Inl e \<or> (\<exists>v. m = Inr v \<and> f v = Inl e)"
  by (cases m) (simp_all add: bindE_def)


lemma bindE_simps [simp]: "bindE (Inl e) f = Inl e" "bindE (Inr v) f = f v"
  by (simp_all add: bindE_def)

lemma foldE_Inl: "foldE f xs s = Inl e \<Longrightarrow> \<exists>x\<in>set xs. \<exists>s'. f x s' = Inl e"
  by (induction xs arbitrary: s) (auto simp: bindE_Inl)

lemma mapE_Inl: "mapE f xs = Inl e \<Longrightarrow> \<exists>x\<in>set xs. f x = Inl e"
  by (induction xs) (auto simp: bindE_Inl)

lemma norm_index_Inl: "norm_index len i = Inl e \<Longrightarrow> e = IndexError"
  by (auto simp: norm_index_def split: if_splits)

lemma getitem_Inl: "getitem xs i = Inl e \<Longrightarrow> e = IndexError"
  by (auto simp: getitem_def bindE_Inl dest: norm_index_Inl)

lemma setitem_Inl: "setitem xs i v = Inl e \<Longrightarrow> e = IndexError"
  by (auto simp: setitem_def bindE_Inl dest: norm_index_Inl)

lemma entry_get_Inl: "entry_get M r j = Inl e \<Longrightarrow> e = IndexError"
  by (auto simp: entry_get_def bindE_Inl dest: getitem_Inl)

lemma entry_set_Inl: "entry_set M r j v = Inl e \<Longrightarrow> e = IndexError"
  by (auto simp: entry_set_def bindE_Inl dest: getitem_Inl setitem_Inl)

lemma py_div_Inl: "py_div a b = Inl e \<Longrightarrow> e = ZeroDivisionError"
  by (auto simp: py_div_def split: if_splits)

lemma entry_add_Inl: "entry_add M r j d = Inl e \<Longrightarrow> e = IndexError"
  by (auto simp: entry_add_def bindE_Inl dest: entry_get_Inl entry_set_Inl)

lemma entry_sub_Inl: "entry_sub M r j d = Inl e \<Longrightarrow> e = IndexError"
  by (auto simp: entry_sub_def bindE_Inl dest: entry_get_Inl entry_set_Inl)

lemma add_line_Inl: "add_line l B = Inl e \<Longrightarrow> e = IndexError \<or> e = ZeroDivisionError"
  by (cases l) (auto simp: add_line_def bindE_Inl dest: entry_add_Inl entry_sub_Inl py_div_Inl)

lemma build_b_matrix_Inl:
  "build_b_matrix n lines = Inl e \<Longrightarrow> e = IndexError \<or> e = ZeroDivisionError"
  unfolding build_b_matrix_def by (blast dest: foldE_Inl add_line_Inl)

lemma max_loop_Inl: "max_loop key xs best bk = Inl e \<Longrightarrow> \<exists>x\<in>set xs. key x = Inl e"
  by (induction xs arbitrary: best bk) (auto simp: bindE_Inl split: if_splits)

lemma pivot_key_Inl: "pivot_key M i r = Inl e \<Longrightarrow> e = IndexError"
  by (auto simp: pivot_key_def bindE_Inl dest: entry_get_Inl)

lemma py_max_pivot_Inl:
  "py_max (pivot_key M i) xs = Inl e \<Longrightarrow>
     e = IndexError \<or> e = ValueError ''max() arg is an empty sequence''"
  by (cases xs) (auto simp: py_max_def bindE_Inl dest: pivot_key_Inl max_loop_Inl)

lemma swap_rows_Inl: "swap_rows M i p = Inl e \<Longrightarrow> e = IndexError"
  by (auto simp: swap_rows_def bindE_Inl dest: getitem_Inl setitem_Inl)

lemma normalize_row_Inl:
  "normalize_row n i pivot M = Inl e \<Longrightarrow> e = IndexError \<or> e = ZeroDivisionError"
  unfolding normalize_row_def
  by (drule foldE_Inl) (auto simp: bindE_Inl dest: entry_get_Inl entry_set_Inl py_div_Inl)

lemma eliminate_row_Inl: "eliminate_row n i r factor M = Inl e \<Longrightarrow> e = IndexError"
  unfolding eliminate_row_def
  by (drule foldE_Inl) (auto simp: bindE_Inl dest: entry_get_Inl entry_set_Inl)

lemma eliminate_Inl: "eliminate n i M = Inl e \<Longrightarrow> e = IndexError"
  unfolding eliminate_def
  by (drule foldE_Inl) (auto simp: bindE_Inl split: if_splits dest: entry_get_Inl eliminate_row_Inl)

lemma pivot_step_Inl:
  "pivot_step n i M = Inl e \<Longrightarrow>
     e = IndexError \<or> e = ZeroDivisionError \<or> e = singular_matrix
     \<or> e = ValueError ''max() arg is an empty sequence''"
  unfolding pivot_step_def
  by (auto simp: bindE_Inl split: if_splits
      dest: py_max_pivot_Inl swap_rows_Inl entry_get_Inl normalize_row_Inl eliminate_Inl)

lemma solve_linear_system_Inl:
  "solve_linear_system A b = Inl e \<Longrightarrow>
     e = IndexError \<or> e = ZeroDivisionError \<or> e = singular_matrix
     \<or> e = ValueError ''max() arg is an empty sequence''"
  unfolding solve_linear_system_def Let_def
  by (auto simp: bindE_Inl dest!: foldE_Inl mapE_Inl dest: pivot_step_Inl entry_get_Inl)

lemma line_flow_Inl: "line_flow angles l flows = Inl e \<Longrightarrow> e = IndexError \<or> e = ZeroDivisionError"
  by (cases l) (auto simp: line_flow_def bindE_Inl dest: getitem_Inl py_div_Inl)

lemma dc_power_flow_Inl:
  "dc_power_flow n lines injs = Inl e \<Longrightarrow>
     e = dimension_mismatch \<and> int (length injs) \<noteq> n
     \<or> int (length injs) = n \<and> (e = IndexError \<or> e = ZeroDivisionError \<or> e = singular_matrix
         \<or> e = ValueError ''max() arg is an empty sequence'')"
  unfolding dc_power_flow_def Let_def
  by (auto simp: bindE_Inl split: if_splits
      dest!: foldE_Inl dest: build_b_matrix_Inl solve_linear_system_Inl line_flow_Inl)

text \<open>
  Claim C5: \<open>dc_power_flow\<close> fails with the dimension mismatch error if and only if the
  length of the injections differs from \<open>num_nodes\<close>, and the check comes before any
  matrix work: with mismatching lengths the mismatch error is the outcome whatever the
  lines are, also for lines on which building the matrix would itself raise.
\<close>

theorem dimension_check_first:
  "(dc_power_flow num_nodes lines injections = Inl dimension_mismatch
      \<longleftrightarrow> int (length injections) \<noteq> num_nodes)
   \<and> (int (length injections) \<noteq> num_nodes \<and> build_b_matrix num_nodes lines = Inl e
      \<longrightarrow> dc_power_flow num_nodes lines injections = Inl dimension_mismatch)"
proof -
  have "int (length injections) \<noteq> num_nodes
    \<Longrightarrow> dc_power_flow num_nodes lines injections = Inl dimension_mismatch"
    by (simp add: dc_power_flow_def)
  moreover have "dc_power_flow num_nodes lines injections = Inl dimension_mismatch
    \<Longrightarrow> int (length injections) \<noteq> num_nodes"
    by (drule dc_power_flow_Inl) (auto simp: dimension_mismatch_def singular_matrix_def)
  ultimately show ?thesis by blast
qed

theorem dimension_check_first_witness:
  "int (length ([]::pyfloat list)) \<noteq> 1 \<and> build_b_matrix 1 [(0, 0, 0)] = Inl ZeroDivisionError
   \<and> dc_power_flow 1 [(0, 0, 0)] [] = Inl dimension_mismatch"
proof -
  have b: "build_b_matrix 1 [(0, 0, 0)] = Inl ZeroDivisionError" by code_simp
  have l: "int (length ([]::pyfloat list)) \<noteq> 1" by simp
  from dimension_check_first [of 1 "[(0, 0, 0)]" "[]" ZeroDivisionError] b l
  show ?thesis by blast
qed

text \<open>
  Claim C10: the empty system is solved without any check, \<open>solve_linear_system([], [])\<close>
  is the empty vector, and a one-bus network without lines is accepted with any
  injection \<open>p\<close> at the slack bus: the result is \<open>([0.0], [])\<close>.
\<close>

theorem empty_system_succeeds:
  "solve_linear_system [] [] = Inr [] \<and> (\<forall>p. dc_power_flow 1 [] [p] = Inr ([0], []))"
  by (simp add: solve_linear_system_def augment_def dc_power_flow_def build_b_matrix_def)

subsection \<open>Loops over ranges, well-shaped matrices, pivot selection\<close>
























subsection \<open>The loops of one pivot step\<close>




subsection \<open>One pivot step\<close>



subsection \<open>The elimination keeps the solutions of the system\<close>







subsection \<open>The entries of the susceptance matrix\<close>






subsection \<open>Solving and multiplying back\<close>












subsection \<open>Row sums and the order of the lines\<close>








subsection \<open>Diagonal and off-diagonal entries, the sample network\<close>








text \<open>
  Claim C9, as amended: on the sample network of \<open>main\<close> the angles are \<open>0\<close>,
  \<open>-52/9\<close> (about -5.7778) and \<open>-76/9\<close> (about -8.4444), and the two flows out of the
  slack bus add up to 100.
\<close>

theorem main_example:
  "dc_power_flow 3 main_lines main_injections
     = Inr ([0, - (52 / 9), - (76 / 9)], [(0, 1, 520 / 9), (0, 2, 380 / 9), (1, 2, 160 / 9)])
   \<and> \<bar>- (52 / 9) - (- (57778 / 10000) :: pyfloat)\<bar> < 5 / 100000
   \<and> \<bar>- (76 / 9) - (- (84444 / 10000) :: pyfloat)\<bar> < 5 / 100000
   \<and> (520 / 9 + 380 / 9 :: pyfloat) = 100"
proof -
  have "dc_power_flow 3 main_lines main_injections
     = Inr ([0, - (52 / 9), - (76 / 9)], [(0, 1, 520 / 9), (0, 2, 380 / 9), (1, 2, 160 / 9)])"
    by code_simp
  then show ?thesis by simp
qed

text \<open>
  Claim C9 as stated fails: the call succeeds, and neither angle is within half a unit
  of the fourth decimal place of -0.0495 and -0.0827.
\<close>

theorem main_example_counterexample:
  "\<not> isl (dc_power_flow 3 main_lines main_injections)
   \<and> \<not> \<bar>fst (projr (dc_power_flow 3 main_lines main_injections)) ! 1 - (- (495 / 10000))\<bar> < 5 / 100000
   \<and> \<not> \<bar>fst (projr (dc_power_flow 3 main_lines main_injections)) ! 2 - (- (827 / 10000))\<bar> < 5 / 100000"
proof -
  have "dc_power_flow 3 main_lines main_injections
     = Inr ([0, - (52 / 9), - (76 / 9)], [(0, 1, 520 / 9), (0, 2, 380 / 9), (1, 2, 160 / 9)])"
    by code_simp
  then show ?thesis by simp
qed

subsection \<open>A bus without a path to the slack bus\<close>






subsection \<open>The result of a successful power flow\<close>












subsection \<open>When the solver reports a singular matrix\<close>






end
